theory Spec2Isabelle
  imports Complex_Main
begin

section \<open>JavaScript values and browser state\<close>

text \<open>
  The client is TypeScript running in a browser. A value of type \<open>string | null\<close>
  (what \<open>localStorage.getItem\<close> returns, an optional field of a JSON envelope) is a
  \<open>string option\<close>. Such a value is falsy when it is \<open>null\<close>, \<open>undefined\<close> or the
  empty string: \<open>truthy\<close> keeps the string exactly when a test \<open>if (x)\<close> succeeds.
\<close>

fun truthy :: "string option \<Rightarrow> string option" where
  "truthy None = None"
| "truthy (Some s) = (if s = [] then None else Some s)"

text \<open>\<open>a || b\<close> on an optional string and a default.\<close>

definition or_default :: "string option \<Rightarrow> string \<Rightarrow> string" where
  "or_default a b = (case truthy a of None \<Rightarrow> b | Some s \<Rightarrow> s)"

text \<open>What a promise can reject with (or a function throw).\<close>

datatype js_error =
    AxiosError "nat option"   \<comment> \<open>an HTTP failure; the field is \<open>error.response?.status\<close>\<close>
  | Error string              \<comment> \<open>\<open>new Error(message)\<close>\<close>
  | SyntaxError               \<comment> \<open>thrown by \<open>JSON.parse\<close>\<close>

subsection \<open>The user profile and its JSON form\<close>

text \<open>
  The \<open>User\<close> type is imported from \<open>../types\<close>; the fields below are the ones the
  pages read. \<open>role\<close> is optional because \<open>refreshUser\<close> reads it defensively
  (\<open>currentUser?.role\<close>) from whatever object is cached.
\<close>

record User =
  uid :: string
  name :: "string option"
  email :: "string option"
  role :: "string option"

text \<open>
  \<open>JSON.stringify\<close> and \<open>JSON.parse\<close> are the browser's. They are parameters of the
  model: \<open>parse\<close> either throws, or yields a falsy value (\<open>null\<close>, \<open>0\<close>, \<open>false\<close>,
  \<open>""\<close>), or a truthy value that the code reads as a \<open>User\<close>.
\<close>

datatype parsed = ParseThrows | Falsy | Truthy User

record JSON =
  stringify :: "User \<Rightarrow> string"
  parse :: "string \<Rightarrow> parsed"

subsection \<open>Requests and the network log\<close>

text \<open>
  An axios request configuration: only the parts the interceptors read or write.
  \<open>headers\<close> is always present in an \<open>InternalAxiosRequestConfig\<close>, so the guards
  \<open>config.headers\<close> and \<open>originalRequest.headers\<close> are true; \<open>authorization\<close> is the
  \<open>Authorization\<close> header and \<open>retry\<close> the \<open>_retry\<close> flag of
  \<open>ExtendedAxiosRequestConfig\<close> (absent is \<open>False\<close>).
\<close>

record config =
  httpMethod :: string
  url :: string
  body :: "string list"
  authorization :: "string option"
  retry :: bool

text \<open>
  Every network call the client issues is appended to a log. The two interceptors post
  to \<open>/auth/v1/refresh-token\<close> with the bare \<open>axios\<close> (no interceptors); the tag
  records which interceptor issued the post.
\<close>

datatype origin = Proactive | Reactive

datatype event =
    RefreshPost origin string   \<comment> \<open>\<open>axios.post(.../auth/v1/refresh-token, {refreshToken})\<close>\<close>
  | Send config                 \<comment> \<open>a request of \<open>this.api\<close> handed to the network\<close>

record world =
  localStorage :: "string \<rightharpoonup> string"
  user :: "User option"          \<comment> \<open>the \<open>user\<close> state of \<open>AuthProvider\<close>\<close>
  pathname :: string             \<comment> \<open>\<open>window.location.pathname\<close>\<close>
  navigations :: "string list"   \<comment> \<open>assignments to \<open>window.location.href\<close>, in order\<close>
  requests :: "event list"       \<comment> \<open>network calls issued so far, in order\<close>
  hasWindow :: bool              \<comment> \<open>\<open>typeof window !== 'undefined'\<close>\<close>

definition getItem :: "world \<Rightarrow> string \<Rightarrow> string option" where
  "getItem w k = localStorage w k"

definition setItem :: "string \<Rightarrow> string \<Rightarrow> world \<Rightarrow> world" where
  "setItem k v w = w\<lparr>localStorage := (localStorage w)(k \<mapsto> v)\<rparr>"

definition removeItem :: "string \<Rightarrow> world \<Rightarrow> world" where
  "removeItem k w = w\<lparr>localStorage := (localStorage w)(k := None)\<rparr>"

definition setUser :: "User option \<Rightarrow> world \<Rightarrow> world" where
  "setUser u w = w\<lparr>user := u\<rparr>"

text \<open>
  \<open>window.location.href = target\<close> starts a navigation; the path the running handler
  reads stays what it was.
\<close>

definition assign_href :: "string \<Rightarrow> world \<Rightarrow> world" where
  "assign_href target w = w\<lparr>navigations := navigations w @ [target]\<rparr>"

definition issue :: "event \<Rightarrow> world \<Rightarrow> world" where
  "issue e w = w\<lparr>requests := requests w @ [e]\<rparr>"

subsection \<open>The backend's envelopes\<close>

text \<open>
  Responses are envelopes \<open>{status, message?, data?}\<close>. An absent field is \<open>None\<close>.
\<close>

record 'd ServiceResponse =
  status :: "string option"
  message :: "string option"
  data :: "'d option"

text \<open>
  \<open>AuthTokens\<close>, from \<open>../types\<close>. In a refresh response the refresh token may be
  missing; the code only tests its truthiness, so a missing one is the empty string.
\<close>

record AuthTokens =
  accessToken :: string
  refreshToken :: string

record LoginData =
  tokens :: AuthTokens
  userData :: User

section \<open>Token expiry\<close>

text \<open>
  \<open>getTokenExpiration\<close> and \<open>isTokenExpiringSoon\<close> stand twice in the source, with
  the same text: in the authentication context and in the constructor of \<open>ApiService\<close>.

  \<open>atob\<close> and \<open>JSON.parse\<close> are the browser's: the parameter \<open>decode\<close> is
  \<open>JSON.parse(atob(token.split('.')[1]))\<close>, \<open>None\<close> where that expression (or the read
  of \<open>payload.exp\<close>) throws. The \<open>exp\<close> claim is a number of seconds, \<open>None\<close> when the
  payload has none. \<open>now\<close> is \<open>Date.now()\<close>, in milliseconds.
\<close>

record jwt_payload =
  exp_claim :: "int option"

definition getTokenExpiration :: "(string \<Rightarrow> jwt_payload option) \<Rightarrow> string \<Rightarrow> int option" where
  "getTokenExpiration decode token =
     (case decode token of
        None \<Rightarrow> None
      | Some payload \<Rightarrow>
          (case exp_claim payload of
             None \<Rightarrow> None
           | Some e \<Rightarrow> if e \<noteq> 0 then Some (e * 1000) else None))"

definition isTokenExpiringSoon ::
  "(string \<Rightarrow> jwt_payload option) \<Rightarrow> int \<Rightarrow> string option \<Rightarrow> bool" where
  "isTokenExpiringSoon decode now token =
     (case truthy token of
        None \<Rightarrow> True
      | Some t \<Rightarrow>
          (case getTokenExpiration decode t of
             None \<Rightarrow> True
           | Some expiration \<Rightarrow>
               if expiration = 0 then True
               else
                 (let twoMinutesFromNow = now + 2 * 60 * 1000
                  in expiration \<le> twoMinutesFromNow)))"

section \<open>The HTTP client wrapper (\<open>ApiService\<close>)\<close>

text \<open>
  What lies outside the client is a parameter: the JWT decoder, the clock and the
  backend. The backend answers a call as a function of the calls issued before it and
  of the call itself, so any history-dependent behaviour of the server is covered.
  \<^item> \<open>refreshEndpoint\<close> is the outcome of \<open>axios.post(.../auth/v1/refresh-token)\<close>:
    the promise rejects (\<open>Inl\<close>) or resolves with \<open>response.data\<close>, an envelope whose
    \<open>data\<close> field stands for \<open>data?.tokens\<close>.
  \<^item> \<open>endpoint\<close> is the outcome of a request of \<open>this.api\<close> on the network: it fails
    with \<open>error.response?.status\<close> (\<open>Inl\<close>; \<open>None\<close> when there is no response) or
    succeeds with \<open>response.data\<close>, which is all the methods of \<open>ApiService\<close> return.
\<close>

record 'r env =
  jwtPayload :: "string \<Rightarrow> jwt_payload option"
  clock :: "event list \<Rightarrow> int"
  refreshEndpoint :: "event list \<Rightarrow> string \<Rightarrow> js_error + AuthTokens ServiceResponse"
  endpoint :: "event list \<Rightarrow> config \<Rightarrow> nat option + 'r"

definition bearer :: "string \<Rightarrow> string" where
  "bearer token = ''Bearer '' @ token"

text \<open>
  Both interceptors save a refreshed pair the same way: the access token always, the
  refresh token when the response carries a truthy one.
\<close>

definition saveTokens :: "AuthTokens \<Rightarrow> world \<Rightarrow> world" where
  "saveTokens t w =
     (let w1 = setItem ''accessToken'' (accessToken t) w
      in if refreshToken t \<noteq> [] then setItem ''refreshToken'' (refreshToken t) w1 else w1)"

text \<open>
  \<open>response.data?.status === 'success' && response.data?.data?.tokens\<close>: the tokens
  of a refresh response that passes this test.
\<close>

definition refreshedTokens :: "AuthTokens ServiceResponse \<Rightarrow> AuthTokens option" where
  "refreshedTokens response =
     (if status response = Some ''success'' then data response else None)"

subsection \<open>The request interceptor\<close>

definition request_interceptor :: "'r env \<Rightarrow> config \<Rightarrow> world \<Rightarrow> config \<times> world" where
  "request_interceptor env config w =
     (if hasWindow w then
        (let token = getItem w ''accessToken'';
             storedRefreshToken = getItem w ''refreshToken'';
             (token, w) =
               (case (truthy token, truthy storedRefreshToken) of
                  (Some tok, Some rt) \<Rightarrow>
                    if isTokenExpiringSoon (jwtPayload env) (clock env (requests w)) (Some tok)
                    then
                      (case refreshEndpoint env (requests w) rt of
                         Inr response \<Rightarrow>
                           (case refreshedTokens response of
                              Some t \<Rightarrow>
                                (Some (accessToken t),
                                 saveTokens t (issue (RefreshPost Proactive rt) w))
                            | None \<Rightarrow> (token, issue (RefreshPost Proactive rt) w))
                       | Inl refreshError \<Rightarrow> (token, issue (RefreshPost Proactive rt) w))
                    else (token, w)
                | _ \<Rightarrow> (token, w))
         in (case truthy token of
               Some tok \<Rightarrow> (config\<lparr>authorization := Some (bearer tok)\<rparr>, w)
             | None \<Rightarrow> (config, w)))
      else (config, w))"

subsection \<open>The response interceptor\<close>

text \<open>
  The error handler either rejects, or re-enters the client with the original request
  (\<open>return this.api(originalRequest)\<close>): \<open>Replay\<close>. axios hands the replayed
  configuration, \<open>_retry\<close> included, to the interceptors again.
\<close>

datatype handled = Reject js_error world | Replay config world

definition clearSession :: "world \<Rightarrow> world" where
  "clearSession w =
     removeItem ''user'' (removeItem ''refreshToken'' (removeItem ''accessToken'' w))"

text \<open>The \<open>catch (refreshError)\<close> block.\<close>

definition refresh_failed :: "js_error \<Rightarrow> world \<Rightarrow> handled" where
  "refresh_failed refreshError w =
     Reject refreshError
       (if hasWindow w then
          (let w1 = clearSession w
           in if pathname w1 \<noteq> ''/login'' then assign_href ''/login'' w1 else w1)
        else w)"

definition response_error :: "'r env \<Rightarrow> config \<Rightarrow> nat option \<Rightarrow> world \<Rightarrow> handled" where
  "response_error env originalRequest st w =
     (if st = Some 401 \<and> \<not> retry originalRequest then
        (let originalRequest = originalRequest\<lparr>retry := True\<rparr>
         in if hasWindow w then
              (case truthy (getItem w ''refreshToken'') of
                 None \<Rightarrow>
                   Reject (AxiosError st) (assign_href ''/login'' (clearSession w))
               | Some rt \<Rightarrow>
                   (case refreshEndpoint env (requests w) rt of
                      Inr response \<Rightarrow>
                        (case refreshedTokens response of
                           Some t \<Rightarrow>
                             Replay
                               (originalRequest\<lparr>authorization := Some (bearer (accessToken t))\<rparr>)
                               (saveTokens t (issue (RefreshPost Reactive rt) w))
                         | None \<Rightarrow>
                             refresh_failed
                               (Error (or_default (message response) ''Invalid refresh response''))
                               (issue (RefreshPost Reactive rt) w))
                    | Inl refreshError \<Rightarrow>
                        refresh_failed refreshError (issue (RefreshPost Reactive rt) w)))
            else Reject (AxiosError st) w)
      else Reject (AxiosError st) w)"

subsection \<open>A request through the client\<close>

text \<open>
  \<open>this.api(config)\<close>: the request interceptor, the network, and on failure the
  response interceptor, which may replay. A replay carries \<open>_retry\<close>, and a request that
  carries it is never replayed: that is the termination argument.
\<close>

lemma request_interceptor_retry:
  "retry (fst (request_interceptor env config w)) = retry config"
  by (simp add: request_interceptor_def Let_def split: option.splits sum.splits prod.splits)

lemma response_error_Replay:
  "response_error env cfg st w = Replay cfg' w' \<Longrightarrow> \<not> retry cfg \<and> retry cfg'"
  by (auto simp: response_error_def refresh_failed_def Let_def
           split: if_splits option.splits sum.splits)

function dispatch :: "'r env \<Rightarrow> config \<Rightarrow> world \<Rightarrow> (js_error + 'r) \<times> world" where
  "dispatch env config w =
     (case request_interceptor env config w of
        (cfg, w1) \<Rightarrow>
          (case endpoint env (requests w1) cfg of
             Inr response \<Rightarrow> (Inr response, issue (Send cfg) w1)
           | Inl st \<Rightarrow>
               (case response_error env cfg st (issue (Send cfg) w1) of
                  Reject e w2 \<Rightarrow> (Inl e, w2)
                | Replay originalRequest w2 \<Rightarrow> dispatch env originalRequest w2)))"
  by pat_completeness auto
termination
proof (relation "measure (\<lambda>(env, config, w). if retry config then 0 else 1)")
  show "wf (measure (\<lambda>(env :: 'r env, config, w :: world). if retry config then 0 else (1::nat)))"
    by simp
next
  fix env :: "'r env" and config w cfg w1 st originalRequest w2
  assume ri: "(cfg, w1) = request_interceptor env config w"
    and re: "response_error env cfg st (issue (Send cfg) w1) = Replay originalRequest w2"
  from ri have "retry cfg = retry config"
    using request_interceptor_retry [of env config w] by (metis fst_conv)
  with response_error_Replay [OF re]
  show "((env, originalRequest, w2), env, config, w)
          \<in> measure (\<lambda>(env, config, w). if retry config then 0 else 1)"
    by simp
qed

declare dispatch.simps [simp del]

text \<open>The endpoints the authentication context calls.\<close>

definition api_login ::
  "LoginData ServiceResponse env \<Rightarrow> string \<Rightarrow> string \<Rightarrow> world
     \<Rightarrow> (js_error + LoginData ServiceResponse) \<times> world" where
  "api_login env email' password w =
     dispatch env
       \<lparr>httpMethod = ''POST'', url = ''/auth/v1/login'', body = [email', password],
        authorization = None, retry = False\<rparr> w"

definition api_getCurrentUser ::
  "User ServiceResponse env \<Rightarrow> world \<Rightarrow> (js_error + User ServiceResponse) \<times> world" where
  "api_getCurrentUser env w =
     dispatch env
       \<lparr>httpMethod = ''GET'', url = ''/auth/v1/me'', body = [],
        authorization = None, retry = False\<rparr> w"

section \<open>The session manager (\<open>AuthProvider\<close>)\<close>

text \<open>
  The context imports \<open>api\<close> from another module, so the call is a parameter here: a
  function from the state in which the call starts to its outcome (\<open>Inl\<close> when the
  promise rejects) and the state in which it settles. \<open>api_login\<close> and
  \<open>api_getCurrentUser\<close> above are the client's own. Messages written to the console
  are not modelled.
\<close>

definition setAuthData :: "JSON \<Rightarrow> AuthTokens \<Rightarrow> User \<Rightarrow> world \<Rightarrow> world" where
  "setAuthData json toks u w =
     setUser (Some u)
       (setItem ''user'' (stringify json u)
          (setItem ''refreshToken'' (refreshToken toks)
             (setItem ''accessToken'' (accessToken toks) w)))"

text \<open>\<open>response.status === 'success' && response.data\<close>: the data that passes.\<close>

definition successData :: "'d ServiceResponse \<Rightarrow> 'd option" where
  "successData response =
     (if status response = Some ''success'' then data response else None)"

definition login ::
  "JSON \<Rightarrow> (string \<Rightarrow> string \<Rightarrow> world \<Rightarrow> (js_error + LoginData ServiceResponse) \<times> world)
     \<Rightarrow> string \<Rightarrow> string \<Rightarrow> world \<Rightarrow> (js_error + unit) \<times> world" where
  "login json api email' password w =
     (case api email' password w of
        (Inl e, w1) \<Rightarrow> (Inl e, w1)
      | (Inr response, w1) \<Rightarrow>
          (case successData response of
             Some d \<Rightarrow> (Inr (), setAuthData json (tokens d) (userData d) w1)
           | None \<Rightarrow> (Inl (Error (or_default (message response) ''Login failed'')), w1)))"

definition logout :: "world \<Rightarrow> world" where
  "logout w =
     setUser None
       (removeItem ''refreshToken'' (removeItem ''accessToken'' (removeItem ''user'' w)))"

text \<open>\<open>setUser(JSON.parse(storedUser))\<close>: what a parsed value is as the \<open>user\<close> state.\<close>

fun as_user :: "parsed \<Rightarrow> User option" where
  "as_user (Truthy u) = Some u"
| "as_user _ = None"

text \<open>
  The \<open>catch\<close> block of \<open>refreshUser\<close>: fall back to the stored user. A stored value
  that does not parse makes the promise reject.
\<close>

definition refreshUser_catch :: "JSON \<Rightarrow> world \<Rightarrow> (js_error + unit) \<times> world" where
  "refreshUser_catch json w =
     (case truthy (getItem w ''user'') of
        None \<Rightarrow> (Inr (), w)
      | Some storedUser \<Rightarrow>
          (case parse json storedUser of
             ParseThrows \<Rightarrow> (Inl SyntaxError, w)
           | p \<Rightarrow> (Inr (), setUser (as_user p) w)))"

text \<open>
  \<open>refreshUser\<close> as it stands in the context that reconciles roles (with
  \<open>lastRoleCheck\<close> and the \<open>checkUserRole\<close> event).
\<close>

definition refreshUser ::
  "JSON \<Rightarrow> (world \<Rightarrow> (js_error + User ServiceResponse) \<times> world) \<Rightarrow> world
     \<Rightarrow> (js_error + unit) \<times> world" where
  "refreshUser json getCurrentUser w =
     (case truthy (getItem w ''accessToken'') of
        None \<Rightarrow> (Inr (), w)
      | Some tok \<Rightarrow>
          (let storedUser = truthy (getItem w ''user'')
           in case (case storedUser of None \<Rightarrow> Falsy | Some s \<Rightarrow> parse json s) of
                ParseThrows \<Rightarrow> refreshUser_catch json w
              | currentUser \<Rightarrow>
                  (let currentRole = (case as_user currentUser of None \<Rightarrow> None | Some u \<Rightarrow> truthy (role u))
                   in case getCurrentUser w of
                        (Inl e, w1) \<Rightarrow> refreshUser_catch json w1
                      | (Inr response, w1) \<Rightarrow>
                          (case successData response of
                             Some fresh \<Rightarrow>
                               (let newRole = truthy (role fresh)
                                in if currentRole \<noteq> None \<and> newRole \<noteq> None \<and> currentRole \<noteq> newRole
                                   then (Inr (), setUser (Some fresh) (setItem ''user'' (stringify json fresh) w1))
                                   else if as_user currentUser = None
                                   then (Inr (), setUser (Some fresh) (setItem ''user'' (stringify json fresh) w1))
                                   else (Inr (), w1))
                           | None \<Rightarrow>
                               (case storedUser of
                                  None \<Rightarrow> (Inr (), w1)
                                | Some s \<Rightarrow>
                                    (case parse json s of
                                       ParseThrows \<Rightarrow> refreshUser_catch json w1
                                     | p \<Rightarrow> (Inr (), setUser (as_user p) w1)))))))"

text \<open>
  \<open>refreshUser\<close> as it stands in the other revision of the context (a two-minute
  interval timer, no role comparison).
\<close>

definition refreshUser_plain ::
  "JSON \<Rightarrow> (world \<Rightarrow> (js_error + User ServiceResponse) \<times> world) \<Rightarrow> world
     \<Rightarrow> (js_error + unit) \<times> world" where
  "refreshUser_plain json getCurrentUser w =
     (case truthy (getItem w ''accessToken'') of
        None \<Rightarrow> (Inr (), w)
      | Some tok \<Rightarrow>
          (case getCurrentUser w of
             (Inl e, w1) \<Rightarrow> refreshUser_catch json w1
           | (Inr response, w1) \<Rightarrow>
               (case successData response of
                  Some fresh \<Rightarrow>
                    (Inr (), setUser (Some fresh) (setItem ''user'' (stringify json fresh) w1))
                | None \<Rightarrow>
                    (case truthy (getItem w1 ''user'') of
                       None \<Rightarrow> (Inr (), w1)
                     | Some s \<Rightarrow>
                         (case parse json s of
                            ParseThrows \<Rightarrow> refreshUser_catch json w1
                          | p \<Rightarrow> (Inr (), setUser (as_user p) w1))))))"

section \<open>Threaded discussions\<close>

text \<open>
  A \<open>Discussion\<close> (from \<open>../types\<close>) carries its replies, themselves discussions;
  \<open>replies\<close> is optional.
\<close>

datatype Discussion =
  Discussion (did: int) (content: string) (replies: "Discussion list option")

lemma replies_size:
  "x \<in> set rs \<Longrightarrow> size_option (size_list size) (replies x) < Suc (size_list size rs)"
proof -
  assume "x \<in> set rs"
  then have "size x \<le> size_list size rs"
    by (simp add: size_list_estimation')
  moreover have "size_option (size_list size) (replies x) < size x"
    by (cases x) simp
  ultimately show ?thesis by simp
qed

text \<open>\<open>replies.reduce((count, reply) => count + 1 + countTotalReplies(reply.replies), 0)\<close>\<close>

function countTotalReplies :: "Discussion list option \<Rightarrow> nat" where
  "countTotalReplies None = 0"
| "countTotalReplies (Some rs) =
     (if length rs = 0 then 0
      else foldl (\<lambda>count reply. count + 1 + countTotalReplies (replies reply)) 0 rs)"
  by pat_completeness auto
termination
  by (relation "measure (size_option (size_list size))") (auto simp: replies_size)

text \<open>
  The reply nodes of a tree, each listed once: every direct reply, followed by its own
  descendants.
\<close>

function reply_nodes :: "Discussion list option \<Rightarrow> Discussion list" where
  "reply_nodes None = []"
| "reply_nodes (Some rs) = concat (map (\<lambda>reply. reply # reply_nodes (replies reply)) rs)"
  by pat_completeness auto
termination
  by (relation "measure (size_option (size_list size))") (auto simp: replies_size)

section \<open>The map picker restricted to the island\<close>

text \<open>
  Coordinates are JavaScript numbers; the picker only compares them, and comparison of
  doubles is exact, so they are reals here. (\<open>NaN\<close> fails every comparison, as a point
  outside the box does.)
\<close>

record bounds =
  minLat :: real
  maxLat :: real
  minLng :: real
  maxLng :: real

definition ISLAND_BOUNDS_OPTS :: bounds where
  "ISLAND_BOUNDS_OPTS =
     \<lparr>minLat = 10.2300, maxLat = 10.3600, minLng = 123.9300, maxLng = 124.0600\<rparr>"

definition isWithinBounds :: "real \<Rightarrow> real \<Rightarrow> bool" where
  "isWithinBounds latitude longitude =
     (latitude \<ge> minLat ISLAND_BOUNDS_OPTS \<and>
      latitude \<le> maxLat ISLAND_BOUNDS_OPTS \<and>
      longitude \<ge> minLng ISLAND_BOUNDS_OPTS \<and>
      longitude \<le> maxLng ISLAND_BOUNDS_OPTS)"

text \<open>
  The state the click handler works on: the marker on the map (\<open>markerRef.current\<close>,
  by its position), the map's centre, and the calls of \<open>onLocationSelect\<close> so far.
\<close>

record picker =
  markerRef :: "(real \<times> real) option"
  centre :: "real \<times> real"
  selections :: "(real \<times> real) list"

definition onLocationSelect :: "real \<Rightarrow> real \<Rightarrow> picker \<Rightarrow> picker" where
  "onLocationSelect lat lng p = p\<lparr>selections := selections p @ [(lat, lng)]\<rparr>"

text \<open>The handler of \<open>map.on('click', ...)\<close>, for the event's \<open>e.latlng\<close>.\<close>

definition click_handler :: "real \<times> real \<Rightarrow> picker \<Rightarrow> picker" where
  "click_handler latlng p =
     (case latlng of
        (lat, lng) \<Rightarrow>
          if \<not> isWithinBounds lat lng then p
          else
            (let p1 = p\<lparr>markerRef := Some (lat, lng)\<rparr>;
                 p2 = onLocationSelect lat lng p1
             in p2\<lparr>centre := (lat, lng)\<rparr>))"

text \<open>A click on the map: the handler is registered only when the picker is not disabled.\<close>

definition map_click :: "bool \<Rightarrow> real \<times> real \<Rightarrow> picker \<Rightarrow> picker" where
  "map_click disabled latlng p = (if \<not> disabled then click_handler latlng p else p)"

section \<open>Reading the network log\<close>

fun is_reactive :: "event \<Rightarrow> bool" where
  "is_reactive (RefreshPost Reactive rt) = True"
| "is_reactive _ = False"

fun is_send :: "event \<Rightarrow> bool" where
  "is_send (Send cfg) = True"
| "is_send _ = False"

text \<open>How many reactive refreshes, and how many requests of \<open>this.api\<close>, a log holds.\<close>

definition reactive_refreshes :: "event list \<Rightarrow> nat" where
  "reactive_refreshes es = length (filter is_reactive es)"

definition sends :: "event list \<Rightarrow> nat" where
  "sends es = length (filter is_send es)"

text \<open>The state a run of the response interceptor leaves.\<close>

fun world_of :: "handled \<Rightarrow> world" where
  "world_of (Reject e w) = w"
| "world_of (Replay cfg w) = w"

section \<open>Concrete browsers and backends\<close>

text \<open>
  A request, a browser state with given storage and path, and backends for the
  examples: the decoder knows the token \<open>new\<close> (expiring in 2033) and no other, the
  clock stands in November 2023.
\<close>

definition demo_config :: config where
  "demo_config =
     \<lparr>httpMethod = ''GET'', url = ''/businesses'', body = [], authorization = None, retry = False\<rparr>"

definition demo_world :: "(string \<times> string) list \<Rightarrow> string \<Rightarrow> world" where
  "demo_world items path =
     \<lparr>localStorage = map_of items, user = None, pathname = path, navigations = [],
      requests = [], hasWindow = True\<rparr>"

definition demo_env ::
  "(event list \<Rightarrow> string \<Rightarrow> js_error + AuthTokens ServiceResponse)
     \<Rightarrow> (event list \<Rightarrow> config \<Rightarrow> nat option + 'r) \<Rightarrow> 'r env" where
  "demo_env r e =
     \<lparr>jwtPayload = (\<lambda>t. if t = ''new'' then Some \<lparr>exp_claim = Some 2000000000\<rparr> else None),
      clock = (\<lambda>es. 1700000000000),
      refreshEndpoint = r,
      endpoint = e\<rparr>"

definition refresh_ok :: "event list \<Rightarrow> string \<Rightarrow> js_error + AuthTokens ServiceResponse" where
  "refresh_ok es rt =
     Inr \<lparr>status = Some ''success'', message = None,
          data = Some \<lparr>accessToken = ''new'', refreshToken = ''r2''\<rparr>\<rparr>"

definition refresh_down :: "event list \<Rightarrow> string \<Rightarrow> js_error + AuthTokens ServiceResponse" where
  "refresh_down es rt = Inl (AxiosError None)"

definition unauthorized :: "event list \<Rightarrow> config \<Rightarrow> nat option + unit" where
  "unauthorized es cfg = Inl (Some 401)"

lemmas demo_defs =
  demo_config_def demo_world_def demo_env_def refresh_ok_def refresh_down_def unauthorized_def

lemmas client_defs =
  request_interceptor_def response_error_def refresh_failed_def refreshedTokens_def
  saveTokens_def clearSession_def getItem_def setItem_def removeItem_def assign_href_def
  issue_def isTokenExpiringSoon_def getTokenExpiration_def bearer_def or_default_def Let_def

text \<open>
  A user, two fresh copies of her profile (renamed; promoted to vendor), a stand-in for
  the browser's JSON on these three, a backend that answers every request with the same
  response, a profile endpoint that succeeds, and a browser that is signed in.
\<close>

definition alice :: User where
  "alice =
     \<lparr>uid = ''u1'', name = Some ''Alice'', email = Some ''alice@example.com'',
      role = Some ''CUSTOMER''\<rparr>"

definition alicia :: User where
  "alicia = alice\<lparr>name := Some ''Alicia''\<rparr>"

definition vendor_alice :: User where
  "vendor_alice = alice\<lparr>role := Some ''VENDOR''\<rparr>"

definition demo_stringify :: "User \<Rightarrow> string" where
  "demo_stringify u = uid u @ '','' @ or_default (name u) [] @ '','' @ or_default (role u) []"

definition demo_json :: JSON where
  "demo_json =
     \<lparr>stringify = demo_stringify,
      parse = (\<lambda>s. if s = ''null'' then Falsy
                   else case find (\<lambda>u. demo_stringify u = s) [alice, alicia, vendor_alice] of
                          Some u \<Rightarrow> Truthy u
                        | None \<Rightarrow> ParseThrows)\<rparr>"

definition answers :: "'r \<Rightarrow> event list \<Rightarrow> config \<Rightarrow> nat option + 'r" where
  "answers r es cfg = Inr r"

definition profile_ok :: "User \<Rightarrow> world \<Rightarrow> (js_error + User ServiceResponse) \<times> world" where
  "profile_ok u w = (Inr \<lparr>status = Some ''success'', message = None, data = Some u\<rparr>, w)"

definition signed_in :: world where
  "signed_in =
     demo_world [(''accessToken'', ''new''), (''refreshToken'', ''r1''),
                 (''user'', ''u1,Alice,CUSTOMER''), (''lastRoleCheck'', ''1700000000000'')] ''/home''"

text \<open>A thread: two replies, the first with two replies of its own.\<close>

definition demo_thread :: "Discussion list option" where
  "demo_thread =
     Some [Discussion 1 ''a'' (Some [Discussion 2 ''b'' None, Discussion 3 ''c'' (Some [])]),
           Discussion 4 ''d'' None]"

section \<open>Properties of the token classification\<close>

text \<open>
  C4. A token whose decoded expiry (\<open>exp\<close> seconds, so \<open>exp * 1000\<close> milliseconds) is
  no later than two minutes after the current time is classified as expiring soon; so
  is every token without a decodable expiry claim (the payload does not decode, or it
  has no \<open>exp\<close>), and so is the absent token.
\<close>

theorem isTokenExpiringSoon_classifies:
  "(decode t = Some p \<and> exp_claim p = Some e \<and> e * 1000 \<le> now + 120000
      \<longrightarrow> isTokenExpiringSoon decode now (Some t))
   \<and> (decode t = None \<longrightarrow> isTokenExpiringSoon decode now (Some t))
   \<and> (decode t = Some p \<and> exp_claim p = None \<longrightarrow> isTokenExpiringSoon decode now (Some t))
   \<and> isTokenExpiringSoon decode now None"
  by (cases "t = []") (simp_all add: isTokenExpiringSoon_def getTokenExpiration_def)

theorem isTokenExpiringSoon_classifies_witness:
  "isTokenExpiringSoon (\<lambda>t. if t = ''a.b.c'' then Some \<lparr>exp_claim = Some 1700000000\<rparr> else None)
      1699999900000 (Some ''a.b.c'')
   \<and> isTokenExpiringSoon (\<lambda>t. if t = ''a.b.c'' then Some \<lparr>exp_claim = Some 1700000000\<rparr> else None)
      1699999900000 (Some ''garbage'')
   \<and> isTokenExpiringSoon (\<lambda>t. Some \<lparr>exp_claim = None\<rparr>) 0 (Some ''a.b.c'')
   \<and> \<not> isTokenExpiringSoon (\<lambda>t. if t = ''a.b.c'' then Some \<lparr>exp_claim = Some 1700000000\<rparr> else None)
      1699999000000 (Some ''a.b.c'')"
proof -
  let ?d = "\<lambda>t. if t = ''a.b.c'' then Some \<lparr>exp_claim = Some (1700000000::int)\<rparr> else None"
  have a: "isTokenExpiringSoon ?d 1699999900000 (Some ''a.b.c'')"
    using isTokenExpiringSoon_classifies
      [of ?d "''a.b.c''" "\<lparr>exp_claim = Some 1700000000\<rparr>" 1700000000 1699999900000]
    by simp
  have b: "isTokenExpiringSoon ?d 1699999900000 (Some ''garbage'')"
    using isTokenExpiringSoon_classifies [of ?d "''garbage''" _ _ 1699999900000]
    by simp
  have c: "isTokenExpiringSoon (\<lambda>t. Some \<lparr>exp_claim = None\<rparr>) 0 (Some ''a.b.c'')"
    using isTokenExpiringSoon_classifies
      [of "\<lambda>t. Some \<lparr>exp_claim = None\<rparr>" "''a.b.c''" "\<lparr>exp_claim = None\<rparr>" _ 0]
    by simp
  have d: "\<not> isTokenExpiringSoon ?d 1699999000000 (Some ''a.b.c'')"
    by (simp add: isTokenExpiringSoon_def getTokenExpiration_def)
  from a b c d show ?thesis by simp
qed

section \<open>Properties of the HTTP client wrapper\<close>

subsection \<open>What each step adds to the log\<close>

lemma requests_simps [simp]:
  "requests (setItem k v w) = requests w"
  "requests (removeItem k w) = requests w"
  "requests (assign_href target w) = requests w"
  "requests (setUser u w) = requests w"
  "requests (issue e w) = requests w @ [e]"
  "requests (saveTokens t w) = requests w"
  "requests (clearSession w) = requests w"
  by (simp_all add: setItem_def removeItem_def assign_href_def setUser_def issue_def
        saveTokens_def clearSession_def Let_def)

lemma request_interceptor_requests:
  "requests (snd (request_interceptor env config w)) = requests w
   \<or> (\<exists>rt. requests (snd (request_interceptor env config w)) = requests w @ [RefreshPost Proactive rt])"
  by (simp add: request_interceptor_def Let_def split: option.splits sum.splits prod.splits)

lemma request_interceptor_counts:
  "reactive_refreshes (requests (snd (request_interceptor env config w))) = reactive_refreshes (requests w)"
  "sends (requests (snd (request_interceptor env config w))) = sends (requests w)"
  using request_interceptor_requests [of env config w]
  by (auto simp: reactive_refreshes_def sends_def)

lemma response_error_retry:
  "retry cfg \<Longrightarrow> response_error env cfg st w = Reject (AxiosError st) w"
  by (simp add: response_error_def)

lemma response_error_Reject_counts:
  "response_error env cfg st w = Reject e w' \<Longrightarrow>
     reactive_refreshes (requests w') \<le> reactive_refreshes (requests w) + 1
     \<and> sends (requests w') = sends (requests w)"
  by (auto simp: response_error_def refresh_failed_def Let_def reactive_refreshes_def sends_def
           split: if_splits option.splits sum.splits)

lemma response_error_Replay_counts:
  "response_error env cfg st w = Replay cfg' w' \<Longrightarrow>
     reactive_refreshes (requests w') = reactive_refreshes (requests w) + 1
     \<and> sends (requests w') = sends (requests w)"
  by (auto simp: response_error_def refresh_failed_def Let_def reactive_refreshes_def sends_def
           split: if_splits option.splits sum.splits)

lemma dispatch_retry_counts:
  assumes "retry config"
  shows "reactive_refreshes (requests (snd (dispatch env config w))) = reactive_refreshes (requests w)"
    and "sends (requests (snd (dispatch env config w))) = sends (requests w) + 1"
proof -
  obtain cfg w1 where ri: "request_interceptor env config w = (cfg, w1)"
    by (cases "request_interceptor env config w")
  then have r: "retry cfg"
    using request_interceptor_retry [of env config w] assms by simp
  have c: "reactive_refreshes (requests w1) = reactive_refreshes (requests w)"
      "sends (requests w1) = sends (requests w)"
    using request_interceptor_counts [of env config w] ri by simp_all
  have "requests (snd (dispatch env config w)) = requests w1 @ [Send cfg]"
    by (subst dispatch.simps) (simp add: ri response_error_retry [OF r] split: sum.splits)
  with c show "reactive_refreshes (requests (snd (dispatch env config w))) = reactive_refreshes (requests w)"
    and "sends (requests (snd (dispatch env config w))) = sends (requests w) + 1"
    by (simp_all add: reactive_refreshes_def sends_def)
qed

lemma response_error_requests:
  "requests (world_of (response_error env cfg st w)) = requests w
   \<or> (\<exists>rt. requests (world_of (response_error env cfg st w)) = requests w @ [RefreshPost Reactive rt])"
  by (simp add: response_error_def refresh_failed_def Let_def split: option.splits sum.splits)

lemma dispatch_retry_requests:
  assumes "retry config"
  shows "requests (snd (dispatch env config w))
           = requests (snd (request_interceptor env config w)) @ [Send (fst (request_interceptor env config w))]"
proof -
  obtain cfg w1 where ri: "request_interceptor env config w = (cfg, w1)"
    by (cases "request_interceptor env config w")
  then have r: "retry cfg"
    using request_interceptor_retry [of env config w] assms by simp
  show ?thesis
    by (subst dispatch.simps) (simp add: ri response_error_retry [OF r] split: sum.splits)
qed

lemma dispatch_sends_request:
  "\<exists>rest. requests (snd (dispatch env config w))
             = requests (snd (request_interceptor env config w))
               @ Send (fst (request_interceptor env config w)) # rest"
proof -
  obtain cfg w1 where ri: "request_interceptor env config w = (cfg, w1)"
    by (cases "request_interceptor env config w")
  let ?w2 = "issue (Send cfg) w1"
  show ?thesis
  proof (cases "endpoint env (requests w1) cfg")
    case (Inr response)
    then have "dispatch env config w = (Inr response, ?w2)"
      by (subst dispatch.simps) (simp add: ri)
    then show ?thesis by (simp add: ri)
  next
    case (Inl st)
    from response_error_requests [of env cfg st ?w2]
    obtain more where m: "requests (world_of (response_error env cfg st ?w2)) = requests w1 @ Send cfg # more"
      by auto
    show ?thesis
    proof (cases "response_error env cfg st ?w2")
      case (Reject e w')
      then have "dispatch env config w = (Inl e, w')"
        using Inl by (subst dispatch.simps) (simp add: ri)
      with m Reject show ?thesis by (simp add: ri)
    next
      case (Replay cfg' w')
      then have d: "dispatch env config w = dispatch env cfg' w'"
        using Inl by (subst dispatch.simps) (simp add: ri)
      from response_error_Replay [OF Replay] have r: "retry cfg'" by simp
      from request_interceptor_requests [of env cfg' w']
      obtain more' where "requests (snd (request_interceptor env cfg' w')) = requests w' @ more'"
        by auto
      with dispatch_retry_requests [OF r, of env w'] m Replay d
      show ?thesis by (simp add: ri)
    qed
  qed
qed










subsection \<open>The single retry\<close>

text \<open>
  C1. Whatever the backend answers, one request through the client triggers at most one
  reactive refresh and reaches the network at most twice (the request and one replay).
  A request that carries \<open>_retry\<close>, as every replay does, triggers no reactive refresh
  and reaches the network exactly once, also when it is answered 401.
\<close>

theorem reactive_refresh_at_most_once:
  "reactive_refreshes (requests (snd (dispatch env config w))) \<le> reactive_refreshes (requests w) + 1
   \<and> sends (requests (snd (dispatch env config w))) \<le> sends (requests w) + 2
   \<and> (retry config \<longrightarrow>
        reactive_refreshes (requests (snd (dispatch env config w))) = reactive_refreshes (requests w)
        \<and> sends (requests (snd (dispatch env config w))) = sends (requests w) + 1)"
proof -
  obtain cfg w1 where ri: "request_interceptor env config w = (cfg, w1)"
    by (cases "request_interceptor env config w")
  have c: "reactive_refreshes (requests w1) = reactive_refreshes (requests w)"
      "sends (requests w1) = sends (requests w)"
    using request_interceptor_counts [of env config w] ri by simp_all
  let ?w2 = "issue (Send cfg) w1"
  have c2: "reactive_refreshes (requests ?w2) = reactive_refreshes (requests w)"
      "sends (requests ?w2) = sends (requests w) + 1"
    using c by (simp_all add: reactive_refreshes_def sends_def)
  have bound: "reactive_refreshes (requests (snd (dispatch env config w))) \<le> reactive_refreshes (requests w) + 1
      \<and> sends (requests (snd (dispatch env config w))) \<le> sends (requests w) + 2"
  proof (cases "endpoint env (requests w1) cfg")
    case (Inr response)
    then have "dispatch env config w = (Inr response, ?w2)"
      by (subst dispatch.simps) (simp add: ri)
    with c2 show ?thesis by simp
  next
    case (Inl st)
    show ?thesis
    proof (cases "response_error env cfg st ?w2")
      case (Reject e w')
      then have "dispatch env config w = (Inl e, w')"
        using Inl by (subst dispatch.simps) (simp add: ri)
      with response_error_Reject_counts [OF Reject] c2 show ?thesis by simp
    next
      case (Replay cfg' w')
      then have d: "dispatch env config w = dispatch env cfg' w'"
        using Inl by (subst dispatch.simps) (simp add: ri)
      from response_error_Replay [OF Replay] have "retry cfg'" by simp
      from dispatch_retry_counts [OF this, of env w'] response_error_Replay_counts [OF Replay] c2 d
      show ?thesis by simp
    qed
  qed
  with dispatch_retry_counts [of config env w] show ?thesis by blast
qed


text \<open>
  A backend that answers 401 to everything, with a refresh endpoint that works: the
  request, one reactive refresh, one replay, and the replay's 401 is handed to the caller.
\<close>

theorem reactive_refresh_at_most_once_witness:
  "dispatch (demo_env refresh_ok unauthorized) demo_config
       (demo_world [(''accessToken'', ''new''), (''refreshToken'', ''r1'')] ''/home'')
     = (Inl (AxiosError (Some 401)),
        \<lparr>localStorage = map_of [(''accessToken'', ''new''), (''refreshToken'', ''r2'')],
         user = None, pathname = ''/home'', navigations = [],
         requests =
           [Send (demo_config\<lparr>authorization := Some ''Bearer new''\<rparr>),
            RefreshPost Reactive ''r1'',
            Send (demo_config\<lparr>authorization := Some ''Bearer new'', retry := True\<rparr>)],
         hasWindow = True\<rparr>)
   \<and> reactive_refreshes (requests (snd (dispatch (demo_env refresh_ok unauthorized)
         (demo_config\<lparr>retry := True\<rparr>)
         (demo_world [(''accessToken'', ''new''), (''refreshToken'', ''r1'')] ''/home'')))) = 0
   \<and> sends (requests (snd (dispatch (demo_env refresh_ok unauthorized)
         (demo_config\<lparr>retry := True\<rparr>)
         (demo_world [(''accessToken'', ''new''), (''refreshToken'', ''r1'')] ''/home'')))) = 1"
proof -
  have run: "dispatch (demo_env refresh_ok unauthorized) demo_config
       (demo_world [(''accessToken'', ''new''), (''refreshToken'', ''r1'')] ''/home'')
     = (Inl (AxiosError (Some 401)),
        \<lparr>localStorage = map_of [(''accessToken'', ''new''), (''refreshToken'', ''r2'')],
         user = None, pathname = ''/home'', navigations = [],
         requests =
           [Send (demo_config\<lparr>authorization := Some ''Bearer new''\<rparr>),
            RefreshPost Reactive ''r1'',
            Send (demo_config\<lparr>authorization := Some ''Bearer new'', retry := True\<rparr>)],
         hasWindow = True\<rparr>)"
    by (simp add: dispatch.simps demo_defs client_defs fun_eq_iff)
  have replay: "retry (demo_config\<lparr>retry := True\<rparr>)"
    by simp
  show ?thesis
    using run replay
      reactive_refresh_at_most_once [of "demo_env refresh_ok unauthorized"
        "demo_config\<lparr>retry := True\<rparr>"
        "demo_world [(''accessToken'', ''new''), (''refreshToken'', ''r1'')] ''/home''"]
    by (simp add: reactive_refreshes_def sends_def demo_world_def)
qed

subsection \<open>The 401 branch\<close>

text \<open>
  With a refresh token stored, a 401 on a request not yet retried posts exactly one
  reactive refresh with that token; a refresh that succeeds saves the tokens and replays
  the request with the new access token; one that fails clears the three session keys
  and assigns \<open>/login\<close> unless the path is \<open>/login\<close> already.
\<close>

lemma clearSession_storage:
  "localStorage (clearSession w)
     = (localStorage w)(''accessToken'' := None, ''refreshToken'' := None, ''user'' := None)"
  "user (clearSession w) = user w"
  "pathname (clearSession w) = pathname w"
  "navigations (clearSession w) = navigations w"
  by (auto simp: clearSession_def removeItem_def)

lemma response_error_refreshes_once:
  assumes "hasWindow w" and "\<not> retry cfg"
    and "truthy (getItem w ''refreshToken'') = Some rt"
  shows "requests (world_of (response_error env cfg (Some 401) w))
           = requests w @ [RefreshPost Reactive rt]"
  using assms
  by (simp add: response_error_def refresh_failed_def Let_def split: option.splits sum.splits)

lemma response_error_replays:
  assumes "hasWindow w" and "\<not> retry cfg"
    and "truthy (getItem w ''refreshToken'') = Some rt"
    and "refreshEndpoint env (requests w) rt = Inr response"
    and "status response = Some ''success''" and "data response = Some t"
  shows "response_error env cfg (Some 401) w
           = Replay (cfg\<lparr>retry := True, authorization := Some (''Bearer '' @ accessToken t)\<rparr>)
               (saveTokens t (issue (RefreshPost Reactive rt) w))"
  using assms by (simp add: response_error_def refreshedTokens_def bearer_def)

lemma response_error_refresh_fails:
  assumes "hasWindow w" and "\<not> retry cfg"
    and "truthy (getItem w ''refreshToken'') = Some rt"
    and "refreshedTokens' = (case refreshEndpoint env (requests w) rt of
            Inr response \<Rightarrow> refreshedTokens response | Inl e \<Rightarrow> None)"
    and "refreshedTokens' = None"
  shows "\<exists>e. response_error env cfg (Some 401) w
           = Reject e
               (if pathname w \<noteq> ''/login''
                then assign_href ''/login'' (clearSession (issue (RefreshPost Reactive rt) w))
                else clearSession (issue (RefreshPost Reactive rt) w))"
  using assms
  by (auto simp: response_error_def refresh_failed_def clearSession_def removeItem_def
        issue_def Let_def split: sum.splits)

text \<open>Without a stored refresh token nothing is posted, and \<open>/login\<close> is assigned whatever the path.\<close>

lemma response_error_without_refresh_token:
  assumes "hasWindow w" and "\<not> retry cfg"
    and "truthy (getItem w ''refreshToken'') = None"
  shows "response_error env cfg (Some 401) w
           = Reject (AxiosError (Some 401)) (assign_href ''/login'' (clearSession w))"
  using assms by (simp add: response_error_def)

text \<open>
  C2. The claim holds on the paths above. Without a stored refresh token the handler
  assigns \<open>/login\<close> whatever the path: on the login page itself, with an empty storage,
  a 401 (a login with wrong credentials, say) makes the browser load \<open>/login\<close> again,
  where the sibling path, with the same state and a refresh that fails, does not.
\<close>

theorem response_error_redirects_on_login_page:
  "response_error env demo_config (Some 401) (demo_world [] ''/login'')
     = Reject (AxiosError (Some 401)) ((demo_world [] ''/login'')\<lparr>navigations := [''/login'']\<rparr>)
   \<and> response_error (demo_env refresh_down unauthorized) demo_config (Some 401)
         (demo_world [(''refreshToken'', ''r1'')] ''/login'')
     = Reject (AxiosError None)
         ((demo_world [] ''/login'')\<lparr>requests := [RefreshPost Reactive ''r1'']\<rparr>)"
  by (simp add: demo_defs client_defs fun_eq_iff)

subsection \<open>The proactive refresh\<close>

text \<open>
  C3, as the code has it. In the browser, with an access token stored: when a refresh
  token is stored too and the access token is expiring soon, the interceptor posts
  exactly one proactive refresh; if it yields tokens, they are saved and the new access
  token is the bearer credential (none is attached if it is empty); if it fails, by
  rejection or by an envelope without success or tokens, the request carries the stored
  access token as bearer credential. Without a stored refresh token nothing is posted
  and the stored access token is attached. In every case the request then reaches the
  network.
\<close>

theorem proactive_refresh_then_bearer:
  fixes env :: "'r env"
  assumes "hasWindow w"
    and "truthy (getItem w ''accessToken'') = Some tok"
  shows "(truthy (getItem w ''refreshToken'') = Some rt
          \<and> isTokenExpiringSoon (jwtPayload env) (clock env (requests w)) (Some tok)
          \<longrightarrow> requests (snd (request_interceptor env config w)) = requests w @ [RefreshPost Proactive rt]
            \<and> (\<forall>response t. refreshEndpoint env (requests w) rt = Inr response
                  \<and> status response = Some ''success'' \<and> data response = Some t
                \<longrightarrow> request_interceptor env config w
                    = (if accessToken t = [] then config
                       else config\<lparr>authorization := Some (''Bearer '' @ accessToken t)\<rparr>,
                       w\<lparr>localStorage :=
                            if refreshToken t = []
                            then (localStorage w)(''accessToken'' \<mapsto> accessToken t)
                            else (localStorage w)(''accessToken'' \<mapsto> accessToken t,
                                                   ''refreshToken'' \<mapsto> refreshToken t),
                          requests := requests w @ [RefreshPost Proactive rt]\<rparr>))
            \<and> ((\<exists>e. refreshEndpoint env (requests w) rt = Inl e)
                \<or> (\<exists>response. refreshEndpoint env (requests w) rt = Inr response
                      \<and> (status response \<noteq> Some ''success'' \<or> data response = None))
                \<longrightarrow> request_interceptor env config w
                    = (config\<lparr>authorization := Some (''Bearer '' @ tok)\<rparr>,
                       w\<lparr>requests := requests w @ [RefreshPost Proactive rt]\<rparr>)))
     \<and> (truthy (getItem w ''refreshToken'') = None
          \<longrightarrow> request_interceptor env config w
              = (config\<lparr>authorization := Some (''Bearer '' @ tok)\<rparr>, w))
     \<and> (\<exists>rest. requests (snd (dispatch env config w))
              = requests (snd (request_interceptor env config w))
                @ Send (fst (request_interceptor env config w)) # rest)"
proof -
  from assms(2) have tok: "tok \<noteq> []"
    by (cases "getItem w ''accessToken''") (auto split: if_splits)
  show ?thesis
    using assms tok dispatch_sends_request [of env config w]
    by (auto simp: request_interceptor_def refreshedTokens_def bearer_def saveTokens_def
          setItem_def issue_def Let_def
             split: option.splits sum.splits)
qed

text \<open>
  A stored pair \<open>old\<close>, \<open>r1\<close> with an undecodable access token: when the refresh endpoint
  is down the request leaves with \<open>Bearer old\<close> and the storage is untouched; when it
  works the storage holds the pair \<open>new\<close>, \<open>r2\<close> and the request leaves with
  \<open>Bearer new\<close>.
\<close>

theorem proactive_refresh_then_bearer_witness:
  "request_interceptor (demo_env refresh_down unauthorized) demo_config
       (demo_world [(''accessToken'', ''old''), (''refreshToken'', ''r1'')] ''/home'')
     = (demo_config\<lparr>authorization := Some ''Bearer old''\<rparr>,
        \<lparr>localStorage = map_of [(''accessToken'', ''old''), (''refreshToken'', ''r1'')],
         user = None, pathname = ''/home'', navigations = [],
         requests = [RefreshPost Proactive ''r1''], hasWindow = True\<rparr>)
   \<and> request_interceptor (demo_env refresh_ok unauthorized) demo_config
       (demo_world [(''accessToken'', ''old''), (''refreshToken'', ''r1'')] ''/home'')
     = (demo_config\<lparr>authorization := Some ''Bearer new''\<rparr>,
        \<lparr>localStorage = map_of [(''accessToken'', ''new''), (''refreshToken'', ''r2'')],
         user = None, pathname = ''/home'', navigations = [],
         requests = [RefreshPost Proactive ''r1''], hasWindow = True\<rparr>)"
proof -
  let ?w = "demo_world [(''accessToken'', ''old''), (''refreshToken'', ''r1'')] ''/home''"
  have h: "hasWindow ?w" "truthy (getItem ?w ''accessToken'') = Some ''old''"
    "truthy (getItem ?w ''refreshToken'') = Some ''r1''"
    by (simp_all add: demo_world_def getItem_def)
  have soon: "\<And>r. isTokenExpiringSoon (jwtPayload (demo_env r unauthorized))
      (clock (demo_env r unauthorized) (requests ?w)) (Some ''old'')"
    by (simp add: demo_env_def isTokenExpiringSoon_def getTokenExpiration_def)
  have down: "request_interceptor (demo_env refresh_down unauthorized) demo_config ?w
     = (demo_config\<lparr>authorization := Some ''Bearer old''\<rparr>,
        \<lparr>localStorage = map_of [(''accessToken'', ''old''), (''refreshToken'', ''r1'')],
         user = None, pathname = ''/home'', navigations = [],
         requests = [RefreshPost Proactive ''r1''], hasWindow = True\<rparr>)"
    using proactive_refresh_then_bearer [where env = "demo_env refresh_down unauthorized"
        and rt = "''r1''" and config = demo_config, OF h(1) h(2)]
      h(3) soon [of refresh_down]
    by (simp add: demo_env_def refresh_down_def demo_world_def)
  have ok: "request_interceptor (demo_env refresh_ok unauthorized) demo_config ?w
     = (demo_config\<lparr>authorization := Some ''Bearer new''\<rparr>,
        \<lparr>localStorage = map_of [(''accessToken'', ''new''), (''refreshToken'', ''r2'')],
         user = None, pathname = ''/home'', navigations = [],
         requests = [RefreshPost Proactive ''r1''], hasWindow = True\<rparr>)"
    using proactive_refresh_then_bearer [where env = "demo_env refresh_ok unauthorized"
        and rt = "''r1''" and config = demo_config, OF h(1) h(2)]
      h(3) soon [of refresh_ok]
    by (simp add: demo_env_def refresh_ok_def demo_world_def fun_eq_iff)
  from down ok show ?thesis by simp
qed

text \<open>
  The claim as written fails twice: a proactive refresh that fails leaves the stored
  token on the request (it does not go out unauthenticated), and an expiring access
  token without a stored refresh token is attached with no refresh attempted.
\<close>

theorem proactive_refresh_counterexample:
  "isTokenExpiringSoon (jwtPayload (demo_env refresh_down unauthorized))
       (clock (demo_env refresh_down unauthorized) []) (Some ''old'')
   \<and> authorization (fst (request_interceptor (demo_env refresh_down unauthorized) demo_config
        (demo_world [(''accessToken'', ''old''), (''refreshToken'', ''r1'')] ''/home'')))
     = Some ''Bearer old''
   \<and> requests (snd (request_interceptor (demo_env refresh_down unauthorized) demo_config
        (demo_world [(''accessToken'', ''old''), (''refreshToken'', ''r1'')] ''/home'')))
     = [RefreshPost Proactive ''r1'']
   \<and> request_interceptor (demo_env refresh_ok unauthorized) demo_config
        (demo_world [(''accessToken'', ''old'')] ''/home'')
     = (demo_config\<lparr>authorization := Some ''Bearer old''\<rparr>,
        demo_world [(''accessToken'', ''old'')] ''/home'')"
  by (simp add: demo_defs client_defs)

section \<open>Properties of the session manager\<close>

subsection \<open>Login\<close>




text \<open>
  C8, as the code has it. After a successful login the storage holds, under
  \<open>accessToken\<close> and \<open>refreshToken\<close>, the two tokens exactly as the backend returned
  them, so they are non-empty when the backend's are, and under \<open>user\<close> the serialized
  profile; the \<open>user\<close> state is the profile.
\<close>

theorem login_success_stores_session:
  assumes "api email' password w = (Inr response, w')"
    and "status response = Some ''success''" and "data response = Some d"
  shows "fst (login json api email' password w) = Inr ()
       \<and> localStorage (snd (login json api email' password w))
           = (localStorage w')(''accessToken'' \<mapsto> accessToken (tokens d),
                ''refreshToken'' \<mapsto> refreshToken (tokens d),
                ''user'' \<mapsto> stringify json (userData d))
       \<and> user (snd (login json api email' password w)) = Some (userData d)
       \<and> (accessToken (tokens d) \<noteq> [] \<and> refreshToken (tokens d) \<noteq> []
            \<longrightarrow> truthy (getItem (snd (login json api email' password w)) ''accessToken'') \<noteq> None
              \<and> truthy (getItem (snd (login json api email' password w)) ''refreshToken'') \<noteq> None)"
  using assms
  by (simp add: login_def successData_def setAuthData_def setItem_def setUser_def getItem_def)

theorem login_success_stores_session_witness:
  "fst (login demo_json
      (api_login (demo_env refresh_down
         (answers \<lparr>status = Some ''success'', message = None,
                    data = Some \<lparr>tokens = \<lparr>accessToken = ''new'', refreshToken = ''r2''\<rparr>,
                                 userData = alice\<rparr>\<rparr>)))
      ''alice@example.com'' ''pw'' (demo_world [] ''/login'')) = Inr ()
   \<and> localStorage (snd (login demo_json
      (api_login (demo_env refresh_down
         (answers \<lparr>status = Some ''success'', message = None,
                    data = Some \<lparr>tokens = \<lparr>accessToken = ''new'', refreshToken = ''r2''\<rparr>,
                                 userData = alice\<rparr>\<rparr>)))
      ''alice@example.com'' ''pw'' (demo_world [] ''/login'')))
     = map_of [(''accessToken'', ''new''), (''refreshToken'', ''r2''), (''user'', ''u1,Alice,CUSTOMER'')]"
proof -
  let ?r = "\<lparr>status = Some ''success'', message = None,
                    data = Some \<lparr>tokens = \<lparr>accessToken = ''new'', refreshToken = ''r2''\<rparr>,
                                 userData = alice\<rparr>\<rparr>"
  let ?w = "demo_world [] ''/login''"
  have call: "api_login (demo_env refresh_down (answers ?r)) ''alice@example.com'' ''pw'' ?w
      = (Inr ?r, issue (Send \<lparr>httpMethod = ''POST'', url = ''/auth/v1/login'',
                                body = [''alice@example.com'', ''pw''],
                                authorization = None, retry = False\<rparr>) ?w)"
    by (simp add: api_login_def dispatch.simps demo_defs answers_def client_defs)
  show ?thesis
    using call
      login_success_stores_session [where api = "api_login (demo_env refresh_down (answers ?r))"
        and email' = "''alice@example.com''" and password = "''pw''" and w = ?w and response = ?r
        and json = demo_json
        and d = "\<lparr>tokens = \<lparr>accessToken = ''new'', refreshToken = ''r2''\<rparr>, userData = alice\<rparr>"]
    by (simp add: issue_def demo_world_def alice_def demo_json_def demo_stringify_def
          or_default_def fun_eq_iff)
qed

text \<open>
  Nothing in \<open>login\<close> or \<open>setAuthData\<close> looks at the tokens: a success envelope with
  empty tokens is stored as it is.
\<close>

theorem login_empty_tokens_counterexample:
  "fst (login demo_json
      (\<lambda>e p w. (Inr \<lparr>status = Some ''success'', message = None,
                  data = Some \<lparr>tokens = \<lparr>accessToken = [], refreshToken = []\<rparr>,
                               userData = alice\<rparr>\<rparr>, w))
      ''alice@example.com'' ''pw'' (demo_world [] ''/login'')) = Inr ()
   \<and> localStorage (snd (login demo_json
      (\<lambda>e p w. (Inr \<lparr>status = Some ''success'', message = None,
                  data = Some \<lparr>tokens = \<lparr>accessToken = [], refreshToken = []\<rparr>,
                               userData = alice\<rparr>\<rparr>, w))
      ''alice@example.com'' ''pw'' (demo_world [] ''/login''))) ''accessToken'' = Some []
   \<and> localStorage (snd (login demo_json
      (\<lambda>e p w. (Inr \<lparr>status = Some ''success'', message = None,
                  data = Some \<lparr>tokens = \<lparr>accessToken = [], refreshToken = []\<rparr>,
                               userData = alice\<rparr>\<rparr>, w))
      ''alice@example.com'' ''pw'' (demo_world [] ''/login''))) ''refreshToken'' = Some []"
  by (simp add: login_def setAuthData_def successData_def setUser_def setItem_def)

subsection \<open>Logout\<close>

text \<open>
  C7, as the code has it. \<open>logout\<close> removes the keys \<open>accessToken\<close>, \<open>refreshToken\<close>
  and \<open>user\<close>, clears the \<open>user\<close> state and issues no network call; every other key
  of the storage, \<open>lastRoleCheck\<close> among them, keeps its value.
\<close>

theorem logout_clears_session:
  "localStorage (logout w) ''accessToken'' = None
   \<and> localStorage (logout w) ''refreshToken'' = None
   \<and> localStorage (logout w) ''user'' = None
   \<and> user (logout w) = None
   \<and> requests (logout w) = requests w
   \<and> (\<forall>k. k \<noteq> ''accessToken'' \<and> k \<noteq> ''refreshToken'' \<and> k \<noteq> ''user''
          \<longrightarrow> localStorage (logout w) k = localStorage w k)"
  by (simp add: logout_def removeItem_def setUser_def)


theorem logout_clears_session_witness:
  "localStorage (logout signed_in) = map_of [(''lastRoleCheck'', ''1700000000000'')]
   \<and> user (logout (signed_in\<lparr>user := Some alice\<rparr>)) = None
   \<and> requests (logout signed_in) = []"
proof -
  have "localStorage (logout signed_in) k = map_of [(''lastRoleCheck'', ''1700000000000'')] k" for k
    using logout_clears_session [of signed_in]
    by (cases "k = ''accessToken'' \<or> k = ''refreshToken'' \<or> k = ''user''")
       (auto simp: signed_in_def demo_world_def)
  then have "localStorage (logout signed_in) = map_of [(''lastRoleCheck'', ''1700000000000'')]"
    by (rule ext)
  then show ?thesis
    using logout_clears_session [of "signed_in\<lparr>user := Some alice\<rparr>"]
      logout_clears_session [of signed_in]
    by (simp add: signed_in_def demo_world_def)
qed

text \<open>The key \<open>lastRoleCheck\<close> survives a logout.\<close>

theorem logout_keeps_lastRoleCheck_counterexample:
  "localStorage signed_in ''lastRoleCheck'' = Some ''1700000000000''
   \<and> localStorage (logout signed_in) ''lastRoleCheck'' = Some ''1700000000000''"
  by (simp add: signed_in_def demo_world_def logout_def removeItem_def setUser_def)

subsection \<open>Refreshing the profile\<close>

text \<open>
  C5, as the code has it. \<open>cached\<close> is what \<open>refreshUser\<close> reads from the storage
  before the call (\<open>Falsy\<close> when nothing is stored), and it parses. In the context that
  reconciles roles, a successful response overwrites the stored profile (and the \<open>user\<close>
  state) exactly when there is no cached profile or when the cached and the fetched
  role are both present and differ; otherwise the state is as the call left it. When
  the call fails, the storage is as the call left it, nothing is thrown, and the \<open>user\<close>
  state falls back to the stored profile. In the other revision of the context a
  successful response always overwrites the stored profile.
\<close>

theorem refreshUser_overwrites_on_role_change_only:
  assumes "truthy (getItem w ''accessToken'') = Some tok"
    and "cached = (case truthy (getItem w ''user'') of None \<Rightarrow> Falsy | Some s \<Rightarrow> parse json s)"
    and "cached \<noteq> ParseThrows"
  shows "(getCurrentUser w = (Inr response, w') \<and> status response = Some ''success''
            \<and> data response = Some fresh
          \<longrightarrow> refreshUser json getCurrentUser w
              = (Inr (),
                 if as_user cached = None
                    \<or> (\<exists>u r r'. cached = Truthy u \<and> truthy (role u) = Some r
                          \<and> truthy (role fresh) = Some r' \<and> r \<noteq> r')
                 then w'\<lparr>localStorage := (localStorage w')(''user'' \<mapsto> stringify json fresh),
                         user := Some fresh\<rparr>
                 else w'))
       \<and> (getCurrentUser w = (Inl e, w')
            \<and> stored = (case truthy (getItem w' ''user'') of None \<Rightarrow> Falsy | Some s \<Rightarrow> parse json s)
            \<and> stored \<noteq> ParseThrows
          \<longrightarrow> refreshUser json getCurrentUser w
              = (Inr (),
                 if truthy (getItem w' ''user'') = None then w' else w'\<lparr>user := as_user stored\<rparr>))
       \<and> (getCurrentUser w = (Inr response, w') \<and> status response = Some ''success''
            \<and> data response = Some fresh
          \<longrightarrow> refreshUser_plain json getCurrentUser w
              = (Inr (),
                 w'\<lparr>localStorage := (localStorage w')(''user'' \<mapsto> stringify json fresh),
                    user := Some fresh\<rparr>))"
proof -
  have c: "(case truthy (getItem w ''user'') of None \<Rightarrow> Falsy | Some s \<Rightarrow> parse json s) = cached"
    using assms(2) by simp
  have ok: "refreshUser json getCurrentUser w
              = (Inr (),
                 if as_user cached = None
                    \<or> (\<exists>u r r'. cached = Truthy u \<and> truthy (role u) = Some r
                          \<and> truthy (role fresh) = Some r' \<and> r \<noteq> r')
                 then w'\<lparr>localStorage := (localStorage w')(''user'' \<mapsto> stringify json fresh),
                         user := Some fresh\<rparr>
                 else w')"
    if "getCurrentUser w = (Inr response, w')" "status response = Some ''success''"
       "data response = Some fresh"
  proof (cases cached)
    case ParseThrows
    with assms show ?thesis by simp
  next
    case Falsy
    with assms(1) c that show ?thesis
      by (simp add: refreshUser_def successData_def setItem_def setUser_def)
  next
    case (Truthy u)
    with assms(1) c that show ?thesis
      by (cases "truthy (role u)"; cases "truthy (role fresh)")
         (simp_all add: refreshUser_def successData_def setItem_def setUser_def)
  qed
  have fail: "refreshUser json getCurrentUser w
              = (Inr (),
                 if truthy (getItem w' ''user'') = None then w' else w'\<lparr>user := as_user stored\<rparr>)"
    if f: "getCurrentUser w = (Inl e, w')"
       "stored = (case truthy (getItem w' ''user'') of None \<Rightarrow> Falsy | Some s \<Rightarrow> parse json s)"
       "stored \<noteq> ParseThrows"
  proof -
    have "refreshUser json getCurrentUser w = refreshUser_catch json w'"
      using assms(1,3) c f(1) by (cases cached) (simp_all add: refreshUser_def)
    also have "\<dots> = (Inr (),
        if truthy (getItem w' ''user'') = None then w' else w'\<lparr>user := as_user stored\<rparr>)"
      using f(2,3)
      by (cases "truthy (getItem w' ''user'')")
         (auto simp: refreshUser_catch_def setUser_def split: parsed.splits)
    finally show ?thesis .
  qed
  have plain: "refreshUser_plain json getCurrentUser w
              = (Inr (),
                 w'\<lparr>localStorage := (localStorage w')(''user'' \<mapsto> stringify json fresh),
                    user := Some fresh\<rparr>)"
    if "getCurrentUser w = (Inr response, w')" "status response = Some ''success''"
       "data response = Some fresh"
    using assms(1) that
    by (simp add: refreshUser_plain_def successData_def setItem_def setUser_def)
  from ok fail plain show ?thesis by blast
qed

text \<open>
  Signed in as a customer: a fetched profile with the same role, through the client,
  leaves the storage alone; one with another role is written; a failed call falls back
  to the stored profile; the other revision writes the first profile too.
\<close>

theorem refreshUser_witness:
  "refreshUser demo_json
       (api_getCurrentUser (demo_env refresh_down
          (answers \<lparr>status = Some ''success'', message = None, data = Some alicia\<rparr>)))
       signed_in
     = (Inr (),
        issue (Send \<lparr>httpMethod = ''GET'', url = ''/auth/v1/me'', body = [],
                     authorization = Some ''Bearer new'', retry = False\<rparr>) signed_in)
   \<and> refreshUser demo_json (profile_ok vendor_alice) signed_in
       = (Inr (), signed_in\<lparr>localStorage := (localStorage signed_in)(''user'' \<mapsto> ''u1,Alice,VENDOR''),
                            user := Some vendor_alice\<rparr>)
   \<and> refreshUser demo_json (\<lambda>w. (Inl (AxiosError None), w)) signed_in
       = (Inr (), signed_in\<lparr>user := Some alice\<rparr>)
   \<and> refreshUser_plain demo_json (profile_ok alicia) signed_in
       = (Inr (), signed_in\<lparr>localStorage := (localStorage signed_in)(''user'' \<mapsto> ''u1,Alicia,CUSTOMER''),
                            user := Some alicia\<rparr>)"
proof -
  let ?r = "\<lparr>status = Some ''success'', message = None, data = Some alicia\<rparr>"
  let ?sent = "issue (Send \<lparr>httpMethod = ''GET'', url = ''/auth/v1/me'', body = [],
                     authorization = Some ''Bearer new'', retry = False\<rparr>) signed_in"
  have tok: "truthy (getItem signed_in ''accessToken'') = Some ''new''"
    by (simp add: signed_in_def demo_world_def getItem_def)
  have cached: "Truthy alice
      = (case truthy (getItem signed_in ''user'') of None \<Rightarrow> Falsy | Some s \<Rightarrow> parse demo_json s)"
    by (simp add: alice_def alicia_def vendor_alice_def demo_json_def demo_stringify_def
          signed_in_def demo_world_def getItem_def or_default_def)
  have ne: "Truthy alice \<noteq> ParseThrows" by simp
  note t = refreshUser_overwrites_on_role_change_only [OF tok cached ne]
  have call: "api_getCurrentUser (demo_env refresh_down (answers ?r)) signed_in = (Inr ?r, ?sent)"
    by (simp add: api_getCurrentUser_def dispatch.simps demo_defs answers_def client_defs
          signed_in_def)
  have a: "refreshUser demo_json (api_getCurrentUser (demo_env refresh_down (answers ?r))) signed_in
      = (Inr (), ?sent)"
    using call
      t [where getCurrentUser = "api_getCurrentUser (demo_env refresh_down (answers ?r))"
        and w' = ?sent and fresh = alicia and response = ?r]
    by (simp add: alice_def alicia_def)
  have b: "refreshUser demo_json (profile_ok vendor_alice) signed_in
       = (Inr (), signed_in\<lparr>localStorage := (localStorage signed_in)(''user'' \<mapsto> ''u1,Alice,VENDOR''),
                            user := Some vendor_alice\<rparr>)"
    using t [where getCurrentUser = "profile_ok vendor_alice" and w' = signed_in and fresh = vendor_alice
        and response = "\<lparr>status = Some ''success'', message = None, data = Some vendor_alice\<rparr>"]
    by (simp add: profile_ok_def alice_def vendor_alice_def demo_json_def demo_stringify_def or_default_def)
  have c: "refreshUser demo_json (\<lambda>w. (Inl (AxiosError None), w)) signed_in
       = (Inr (), signed_in\<lparr>user := Some alice\<rparr>)"
    using t [where getCurrentUser = "\<lambda>w. (Inl (AxiosError None), w)" and w' = signed_in
        and e = "AxiosError None" and stored = "Truthy alice"] cached [symmetric]
    by (simp add: signed_in_def demo_world_def getItem_def)
  have d: "refreshUser_plain demo_json (profile_ok alicia) signed_in
       = (Inr (), signed_in\<lparr>localStorage := (localStorage signed_in)(''user'' \<mapsto> ''u1,Alicia,CUSTOMER''),
                            user := Some alicia\<rparr>)"
    using t [where getCurrentUser = "profile_ok alicia" and w' = signed_in and fresh = alicia
        and response = "\<lparr>status = Some ''success'', message = None, data = Some alicia\<rparr>"]
    by (simp add: profile_ok_def alice_def alicia_def demo_json_def demo_stringify_def or_default_def)
  from a b c d show ?thesis by simp
qed

text \<open>
  The revision without role comparison overwrites a cached profile with a fetched
  profile of the same role.
\<close>

theorem refreshUser_plain_counterexample:
  "getItem signed_in ''user'' = Some ''u1,Alice,CUSTOMER''
   \<and> parse demo_json ''u1,Alice,CUSTOMER'' = Truthy alice
   \<and> role alicia = role alice
   \<and> localStorage (snd (refreshUser_plain demo_json (profile_ok alicia) signed_in)) ''user''
       = Some ''u1,Alicia,CUSTOMER''"
  by (simp add: refreshUser_plain_def successData_def setUser_def setItem_def getItem_def
        alice_def alicia_def vendor_alice_def demo_json_def demo_stringify_def profile_ok_def
        signed_in_def demo_world_def or_default_def)

section \<open>Properties of the reply counter\<close>

lemma foldl_count:
  "foldl (\<lambda>count reply. Suc (count + f reply)) a rs = a + length rs + sum_list (map f rs)"
  by (induction rs arbitrary: a) auto

lemma length_concat_nodes:
  "length (concat (map (\<lambda>reply. reply # g reply) rs))
     = length rs + sum_list (map (\<lambda>r. length (g r)) rs)"
  by (induction rs) auto

text \<open>
  C9. \<open>countTotalReplies\<close> returns the number of reply nodes of the tree, every direct
  reply and every nested descendant counted once, and 0 for an undefined or an empty
  list of replies.
\<close>

theorem countTotalReplies_counts_nodes:
  "countTotalReplies rs = length (reply_nodes rs)
   \<and> countTotalReplies None = 0 \<and> countTotalReplies (Some []) = 0"
proof -
  have "countTotalReplies rs = length (reply_nodes rs)"
  proof (induction rs rule: countTotalReplies.induct)
    case 1
    show ?case by simp
  next
    case (2 rs)
    show ?case
    proof (cases "rs = []")
      case True
      then show ?thesis by simp
    next
      case False
      with 2 have ih: "countTotalReplies (replies r) = length (reply_nodes (replies r))"
        if "r \<in> set rs" for r
        using that by simp
      have "sum_list (map (\<lambda>r. countTotalReplies (replies r)) rs)
          = sum_list (map (\<lambda>r. length (reply_nodes (replies r))) rs)"
        using ih by (auto intro: arg_cong [where f = sum_list])
      with False show ?thesis
        by (simp add: foldl_count length_concat_nodes)
    qed
  qed
  then show ?thesis by simp
qed

theorem countTotalReplies_counts_nodes_witness:
  "countTotalReplies demo_thread = 4
   \<and> map did (reply_nodes demo_thread) = [1, 2, 3, 4]"
proof -
  have "reply_nodes demo_thread
      = [Discussion 1 ''a'' (Some [Discussion 2 ''b'' None, Discussion 3 ''c'' (Some [])]),
         Discussion 2 ''b'' None, Discussion 3 ''c'' (Some []), Discussion 4 ''d'' None]"
    by (simp add: demo_thread_def)
  then show ?thesis
    using countTotalReplies_counts_nodes [of demo_thread] by simp
qed

section \<open>Properties of the map picker\<close>

text \<open>
  C10. Whatever a click on the map adds to the calls of \<open>onLocationSelect\<close> lies inside
  the box of the island (latitude between 10.23 and 10.36, longitude between 123.93 and
  124.06); a click outside the box changes nothing: no marker is placed and the callback
  is not called.
\<close>

theorem map_click_within_bounds:
  "(selections (map_click disabled (lat, lng) p) = selections p @ calls
      \<longrightarrow> (\<forall>c \<in> set calls. 10.23 \<le> fst c \<and> fst c \<le> 10.36 \<and> 123.93 \<le> snd c \<and> snd c \<le> 124.06))
   \<and> (\<not> (10.23 \<le> lat \<and> lat \<le> 10.36 \<and> 123.93 \<le> lng \<and> lng \<le> 124.06)
      \<longrightarrow> map_click disabled (lat, lng) p = p)"
  by (auto simp: map_click_def click_handler_def isWithinBounds_def ISLAND_BOUNDS_OPTS_def
        onLocationSelect_def Let_def)

theorem map_click_within_bounds_witness:
  "selections (map_click False (10.30, 124.00)
       \<lparr>markerRef = None, centre = (10.2929, 123.9750), selections = []\<rparr>) = [(10.30, 124.00)]
   \<and> map_click False (10.30, 123.80) \<lparr>markerRef = None, centre = (10.2929, 123.9750), selections = []\<rparr>
       = \<lparr>markerRef = None, centre = (10.2929, 123.9750), selections = []\<rparr>"
proof -
  let ?p = "\<lparr>markerRef = None, centre = (10.2929, 123.9750), selections = []\<rparr>"
  have inside: "selections (map_click False (10.30, 124.00) ?p) = selections ?p @ [(10.30, 124.00)]"
    by (simp add: map_click_def click_handler_def isWithinBounds_def ISLAND_BOUNDS_OPTS_def
          onLocationSelect_def)
  have outside: "map_click False (10.30, 123.80) ?p = ?p"
    using map_click_within_bounds [of False "10.30" "123.80" ?p "[]"] by simp
  from inside outside
    map_click_within_bounds [of False "10.30" "124.00" ?p "[(10.30, 124.00)]"]
  show ?thesis by simp
qed

end
